theory Spec2Isabelle
  imports Complex_Main "HOL-Library.Sublist" "HOL-Library.Product_Lexorder" "HOL-Library.Multiset"
begin

section \<open>JavaScript values used by the page components\<close>

text \<open>
  The components are JavaScript. Numbers of minutes are modelled as
  \<^typ>\<open>int\<close>; ticket counts, percentages and capacities as
  \<^typ>\<open>rat\<close> (exact arithmetic; the doubles of the source agree with it
  on the values used here, for instance \<open>9 / 10 * 100\<close> is \<open>90\<close> in
  both). A field that may be absent (\<open>undefined\<close> or \<open>null\<close>) is an
  \<open>option\<close>. Strings are the UTF-8 bytes of the text:
  \<open>trim\<close> strips the white space of ECMAScript in that encoding,
  \<open>toLowerCase\<close> is modelled on the ASCII letters.
\<close>

definition digit_char :: "nat \<Rightarrow> char" where
  "digit_char d = (''0123456789'' ! d)"

text \<open>\<open>String(n)\<close> for a non-negative integer: its decimal digits.\<close>

fun string_of_nat :: "nat \<Rightarrow> string" where
  "string_of_nat n =
     (if n < 10 then [digit_char n]
      else string_of_nat (n div 10) @ [digit_char (n mod 10)])"

declare string_of_nat.simps [simp del]

text \<open>\<open>String(i)\<close> for an integer, as a template literal renders it.\<close>

definition string_of_number :: "int \<Rightarrow> string" where
  "string_of_number i =
     (if i < 0 then ''-'' @ string_of_nat (nat (- i)) else string_of_nat (nat i))"

definition lower_char :: "char \<Rightarrow> char" where
  "lower_char c =
     (let n = (of_char c :: nat)
      in if 65 \<le> n \<and> n \<le> 90 then char_of (n + 32) else c)"

definition toLowerCase :: "string \<Rightarrow> string" where
  "toLowerCase s = map lower_char s"

text \<open>\<open>hay.includes(needle)\<close>: the needle occurs as a contiguous run.\<close>

definition includes_str :: "string \<Rightarrow> string \<Rightarrow> bool" where
  "includes_str hay needle = sublist needle hay"

text \<open>
  The white space \<open>String.prototype.trim\<close> strips (ECMAScript's WhiteSpace and
  LineTerminator), each code point in UTF-8: U+0009 to U+000D, U+0020, U+00A0, U+1680,
  U+2000 to U+200A, U+2028, U+2029, U+202F, U+205F, U+3000 and U+FEFF.
\<close>

definition white_space :: "string list" where
  "white_space =
     [[CHR 0x09], [CHR 0x0A], [CHR 0x0B], [CHR 0x0C], [CHR 0x0D], [CHR 0x20],
      [CHR 0xC2, CHR 0xA0],
      [CHR 0xE1, CHR 0x9A, CHR 0x80],
      [CHR 0xE2, CHR 0x80, CHR 0x80], [CHR 0xE2, CHR 0x80, CHR 0x81],
      [CHR 0xE2, CHR 0x80, CHR 0x82], [CHR 0xE2, CHR 0x80, CHR 0x83],
      [CHR 0xE2, CHR 0x80, CHR 0x84], [CHR 0xE2, CHR 0x80, CHR 0x85],
      [CHR 0xE2, CHR 0x80, CHR 0x86], [CHR 0xE2, CHR 0x80, CHR 0x87],
      [CHR 0xE2, CHR 0x80, CHR 0x88], [CHR 0xE2, CHR 0x80, CHR 0x89],
      [CHR 0xE2, CHR 0x80, CHR 0x8A],
      [CHR 0xE2, CHR 0x80, CHR 0xA8], [CHR 0xE2, CHR 0x80, CHR 0xA9],
      [CHR 0xE2, CHR 0x80, CHR 0xAF],
      [CHR 0xE2, CHR 0x81, CHR 0x9F],
      [CHR 0xE3, CHR 0x80, CHR 0x80],
      [CHR 0xEF, CHR 0xBB, CHR 0xBF]]"

text \<open>Dropping, from the front, every leading occurrence of one of the given sequences.\<close>

function strip_leading :: "string list \<Rightarrow> string \<Rightarrow> string" where
  "strip_leading wss s =
     (case find (\<lambda>ws. ws \<noteq> [] \<and> prefix ws s) wss of
        None \<Rightarrow> s
      | Some ws \<Rightarrow> strip_leading wss (drop (length ws) s))"
  by pat_completeness auto
termination
proof (relation "measure (\<lambda>(wss, s). length s)")
  show "wf (measure (\<lambda>(wss, s). length s))"
    by simp
next
  fix wss :: "string list" and s ws :: string
  assume "find (\<lambda>ws. ws \<noteq> [] \<and> prefix ws s) wss = Some ws"
  then have ne: "ws \<noteq> []" and "prefix ws s"
    by (auto simp: find_Some_iff)
  then have "length ws \<le> length s"
    by (simp add: prefix_length_le)
  with ne have "length s - length ws < length s"
    by (cases ws) auto
  then show "((wss, drop (length ws) s), (wss, s)) \<in> measure (\<lambda>(wss, s). length s)"
    by simp
qed

declare strip_leading.simps [simp del]

text \<open>\<open>s.trim()\<close>: white space stripped from both ends.\<close>

definition trim :: "string \<Rightarrow> string" where
  "trim s = rev (strip_leading (map rev white_space) (rev (strip_leading white_space s)))"

text \<open>
  \<open>a || b\<close> on an optional string: the empty string, \<open>undefined\<close> and
  \<open>null\<close> are falsy.
\<close>

definition or_str :: "string option \<Rightarrow> string \<Rightarrow> string" where
  "or_str a b = (case a of None \<Rightarrow> b | Some s \<Rightarrow> if s = [] then b else s)"

text \<open>
  \<open>a || b\<close> on an optional number: \<open>0\<close>, \<open>undefined\<close> and
  \<open>null\<close> are falsy.
\<close>

definition or_number :: "rat option \<Rightarrow> rat \<Rightarrow> rat" where
  "or_number a b = (case a of None \<Rightarrow> b | Some v \<Rightarrow> if v = 0 then b else v)"

section \<open>PasswordResetForm: the ticket request\<close>

record form_data =
  username :: string
  email :: string
  reason :: string
  contactNumber :: string
  preferredContact :: string
  urgency :: string

text \<open>The JSON body posted to \<open>/api/tickets/auto-create\<close>.\<close>

record ticket_request =
  event_type :: string
  source_system :: string
  request_title :: string
  request_description :: string
  request_category :: string
  subcategory :: string
  request_priority :: string
  assignment_group :: string
  ticket_type :: string
  sla_hours :: nat
  affected_user :: string
  requires_approval :: bool
  auto_assign :: bool
  metadata :: "(string \<times> string) list"

definition nl :: string where
  "nl = [CHR 0x0A]"

text \<open>\<open>validateForm\<close>: the entries of \<open>newErrors\<close>; the form is valid when there are none.\<close>

definition validateForm :: "form_data \<Rightarrow> (string \<times> string) list" where
  "validateForm fd =
     (if trim (username fd) = [] then [(''username'', ''SAP Username is required'')] else []) @
     (if trim (reason fd) = []
      then [(''reason'', ''Please provide a reason for the password reset'')] else []) @
     (if trim (contactNumber fd) = []
      then [(''contactNumber'', ''Contact number is required for identity verification'')]
      else [])"

text \<open>
  \<open>handleSubmit\<close> up to the request it sends: nothing is sent (\<open>None\<close>) when
  validation fails; \<open>full_name\<close> is \<open>user?.full_name\<close>.
\<close>

definition handleSubmit :: "string option \<Rightarrow> form_data \<Rightarrow> ticket_request option" where
  "handleSubmit full_name fd =
     (if validateForm fd \<noteq> [] then None
      else Some \<lparr>
        event_type = ''password_reset'',
        source_system = ''servicenow_self_service'',
        request_title = ''SAP Password Reset Request: '' @ username fd,
        request_description =
          ''Password Reset Request'' @ nl @ nl @
          ''SAP Username: '' @ username fd @ nl @
          ''Requested By: '' @ or_str full_name ''Self-service User'' @ nl @
          ''Email: '' @ or_str (Some (email fd)) ''Not provided'' @ nl @
          ''Contact Number: '' @ contactNumber fd @ nl @
          ''Preferred Contact: '' @ preferredContact fd @ nl @ nl @
          ''Reason for Reset:'' @ nl @ reason fd @ nl @ nl @
          ''--- Instructions for SAP Admin ---'' @ nl @
          ''1. Verify user identity by calling the contact number above'' @ nl @
          ''2. Reset password in SAP using transaction SU01'' @ nl @
          ''3. Generate temporary password and communicate securely to user'' @ nl @
          ''4. Update this ticket with resolution details'' @ nl @
          ''5. Ensure user changes password on first login'',
        request_category = ''User Account'',
        subcategory = ''Password Reset'',
        request_priority = urgency fd,
        assignment_group = ''SAP User Management'',
        ticket_type = ''incident'',
        sla_hours =
          (if urgency fd = ''high'' then 4 else if urgency fd = ''critical'' then 1 else 24),
        affected_user = username fd,
        requires_approval = False,
        auto_assign = True,
        metadata =
          [(''sap_username'', username fd),
           (''requester_email'', email fd),
           (''contact_number'', contactNumber fd),
           (''preferred_contact'', preferredContact fd),
           (''request_type'', ''password_reset'')]
      \<rparr>)"

section \<open>SLADashboard\<close>

text \<open>
  \<open>formatTimeRemaining\<close>; \<open>None\<close> is \<open>null\<close> or \<open>undefined\<close>.
  Past the sign test the value is non-negative, where JavaScript's \<open>%\<close> is
  \<open>mod\<close> and \<open>Math.floor(x / n)\<close> is \<open>div\<close>.
\<close>

definition formatTimeRemaining :: "int option \<Rightarrow> string" where
  "formatTimeRemaining minutes =
     (case minutes of
        None \<Rightarrow> ''N/A''
      | Some m \<Rightarrow>
          if m < 0 then ''Overdue''
          else
            let hours = m div 60; mins = m mod 60 in
            if hours > 24 then
              (let days = hours div 24
               in string_of_number days @ ''d '' @ string_of_number (hours mod 24) @ ''h'')
            else if hours > 0 then string_of_number hours @ ''h '' @ string_of_number mins @ ''m''
            else string_of_number mins @ ''m'')"

text \<open>The Compliance Rate card: \<open>breaches.length === 0 ? '100%' : 'N/A'\<close>.\<close>

definition complianceRate :: "'a list \<Rightarrow> string" where
  "complianceRate breaches = (if length breaches = 0 then ''100%'' else ''N/A'')"

text \<open>
  A breach or warning entry as the tables read it. \<open>ticket_number\<close> and \<open>id\<close>
  may be a string or a number; the other fields of an entry travel in the record's
  extension.
\<close>

datatype js_key = Str string | Num int

record sla_item =
  ticket_number :: "js_key option"
  item_id :: "js_key option"
  title :: "string option"
  short_description :: "string option"

definition or_key :: "js_key option \<Rightarrow> js_key \<Rightarrow> js_key" where
  "or_key a b =
     (case a of
        None \<Rightarrow> b
      | Some (Str s) \<Rightarrow> if s = [] then b else Str s
      | Some (Num n) \<Rightarrow> if n = 0 then b else Num n)"

definition key_toString :: "js_key \<Rightarrow> string" where
  "key_toString k = (case k of Str s \<Rightarrow> s | Num n \<Rightarrow> string_of_number n)"

text \<open>The predicate \<open>filterData\<close> passes to \<open>Array.prototype.filter\<close>.\<close>

definition matches :: "string \<Rightarrow> 'a sla_item_scheme \<Rightarrow> bool" where
  "matches searchTerm item =
     (includes_str
        (toLowerCase (key_toString (or_key (ticket_number item) (or_key (item_id item) (Str [])))))
        (toLowerCase searchTerm) \<or>
      includes_str
        (toLowerCase (or_str (title item) (or_str (short_description item) [])))
        (toLowerCase searchTerm))"

text \<open>
  Arrays are objects with identity: \<open>return data\<close> hands back the caller's array,
  \<open>data.filter(...)\<close> allocates a new one. The heap holds the arrays by address;
  allocation appends. A reference outside the heap stands for a value that is not an
  array, on which \<open>.filter\<close> raises a \<open>TypeError\<close> (\<open>None\<close>).
\<close>

type_synonym ref = nat

type_synonym 'a heap = "'a list list"

definition filterData :: "string \<Rightarrow> 'a sla_item_scheme heap \<Rightarrow> ref \<Rightarrow> (ref \<times> 'a sla_item_scheme heap) option" where
  "filterData searchTerm h data =
     (if searchTerm = [] then Some (data, h)
      else if data < length h then Some (length h, h @ [filter (matches searchTerm) (h ! data)])
      else None)"

text \<open>
  \<open>fetchSLAData\<close>: the two responses, each an array or an object holding the array
  under \<open>breaches\<close> (or \<open>warnings\<close>); the lists go to the state as received.
\<close>

datatype 'a response = Array "'a list" | Object "'a list option"

record 'a http_result =
  ok :: bool
  body :: "'a response"

definition response_list :: "'a response \<Rightarrow> 'a list" where
  "response_list r =
     (case r of Array xs \<Rightarrow> xs | Object f \<Rightarrow> (case f of Some xs \<Rightarrow> xs | None \<Rightarrow> []))"

definition fetchSLAData :: "'a http_result \<Rightarrow> 'a http_result \<Rightarrow> string + ('a list \<times> 'a list)" where
  "fetchSLAData breachesRes warningsRes =
     (if \<not> ok breachesRes \<or> \<not> ok warningsRes then Inl ''Failed to fetch SLA data''
      else Inr (response_list (body breachesRes), response_list (body warningsRes)))"

section \<open>AssignmentGroups: the agent workload table\<close>

record agent =
  workload_percentage :: "rat option"
  assigned_tickets :: rat
  agent_status :: "string option"

record workload =
  max_capacity :: "rat option"
  agents :: "agent list"

text \<open>
  \<open>agent.workload_percentage || (agent.assigned_tickets / (workload.max_capacity || 10)) * 100\<close>
\<close>

definition workloadPercent :: "workload \<Rightarrow> agent \<Rightarrow> rat" where
  "workloadPercent w a =
     or_number (workload_percentage a) ((assigned_tickets a / or_number (max_capacity w) 10) * 100)"

definition getWorkloadColor :: "rat \<Rightarrow> string" where
  "getWorkloadColor percentage =
     (if percentage \<ge> 90 then ''#d32f2f''
      else if percentage \<ge> 70 then ''#f57c00''
      else if percentage \<ge> 50 then ''#fbc02d''
      else ''#388e3c'')"

text \<open>The label of the status chip.\<close>

definition statusLabel :: "workload \<Rightarrow> agent \<Rightarrow> string" where
  "statusLabel w a =
     or_str (agent_status a) (if workloadPercent w a \<ge> 90 then ''Overloaded'' else ''Available'')"

section \<open>The specification's wording, for comparison with the components\<close>

text \<open>
  The specification's compliance rate, from the count of tickets ever breached and the
  count of tickets with a resolved metric.
\<close>

datatype rate = NotAvailable | Percent rat

definition spec_compliance_rate :: "nat \<Rightarrow> nat \<Rightarrow> rate" where
  "spec_compliance_rate ever_breached resolved =
     (if resolved = 0 then NotAvailable
      else Percent ((1 - of_nat ever_breached / of_nat resolved) * 100))"

text \<open>
  What the specification asks of the displayed text: \<open>N/A\<close> exactly when there is
  no rate, \<open>100%\<close> exactly when the rate is one hundred.
\<close>

definition spec_shows_rate :: "string \<Rightarrow> rate \<Rightarrow> bool" where
  "spec_shows_rate shown r =
     (((shown = ''N/A'') = (r = NotAvailable)) \<and> ((shown = ''100%'') = (r = Percent 100)))"

text \<open>The specification's status buckets: below 50, 50 up to 90, 90 and above.\<close>

definition spec_status :: "rat \<Rightarrow> string" where
  "spec_status p = (if p < 50 then ''available'' else if p < 90 then ''busy'' else ''overloaded'')"

text \<open>
  The specification's workload calculator: an unconfigured (or zero) capacity is an
  error reported to the caller.
\<close>

datatype calc_error = InvalidCapacityConfig

definition spec_compute :: "workload \<Rightarrow> agent \<Rightarrow> calc_error + rat" where
  "spec_compute w a =
     (case max_capacity w of
        None \<Rightarrow> Inl InvalidCapacityConfig
      | Some c \<Rightarrow> if c = 0 then Inl InvalidCapacityConfig else Inr (assigned_tickets a / c * 100))"

section \<open>The SLA service behind the dashboard\<close>

text \<open>
  The dashboard reads its two lists from \<open>/api/sla/check-breaches\<close> and
  \<open>/api/sla/warnings\<close>. The service that computes them is not among the
  repository's front-end sources, so the data, the policy store, the evaluator and the
  aggregator of this section follow the specification (sections 3 and 4). Times are
  whole minutes.
\<close>

text \<open>
  Modelled from the spec: the two metrics of a ticket (section 3; the evaluator's
  types are missing from the sources).
\<close>

datatype metric = Response | Resolution

text \<open>
  Modelled from the spec: the status of an evaluation result (section 3; missing from
  the sources).
\<close>

datatype sla_status = OnTrack | Warning | Breached

text \<open>
  Modelled from the spec: an SLA policy (section 3; the policy store is missing from
  the sources). An absent category or priority means "applies to all".
\<close>

record policy =
  policy_id :: nat
  policy_name :: string
  policy_category :: "string option"
  policy_priority :: "string option"
  response_target_minutes :: int
  resolution_target_minutes :: int
  warning_threshold_percent :: rat
  active :: bool

text \<open>
  Modelled from the spec: the read-only projection of a ticket (section 3; the ticket
  store is missing from the sources). The due times are derived, see below.
\<close>

record ticket =
  ticket_id :: nat
  ticket_no :: string
  category :: string
  priority :: string
  ticket_status :: string
  created_at :: int
  responded_at :: "int option"
  resolved_at :: "int option"

text \<open>
  Modelled from the spec: the SLA evaluation result (section 3; missing from the
  sources); remaining minutes are signed, negative when overdue.
\<close>

record evaluation =
  eval_ticket_id :: nat
  eval_status :: sla_status
  eval_metric :: metric
  target_minutes :: int
  elapsed_minutes :: int
  remaining_minutes :: int

text \<open>
  Modelled from the spec: what the evaluator returns (section 4.2; missing from the
  sources): \<open>not_applicable\<close> when the policy is missing, an evaluation otherwise.
\<close>

datatype evaluation_result = NotApplicable | Evaluated evaluation

text \<open>
  Modelled from the spec: the policy store's matching of one policy (section 3; the
  store is missing from the sources). Only active policies match.
\<close>

definition policy_matches :: "string option \<Rightarrow> string option \<Rightarrow> policy \<Rightarrow> bool" where
  "policy_matches c p pol = (active pol \<and> policy_category pol = c \<and> policy_priority pol = p)"

text \<open>
  Modelled from the spec: \<open>find_policy\<close> of the SLA Policy Store (section 4.1,
  missing from the sources). Resolution order: the exact (category, priority) match, then
  (category, any priority), then (any category, priority), then the global default;
  \<open>None\<close> is \<open>PolicyNotFound\<close>.
\<close>

definition find_policy :: "policy list \<Rightarrow> string \<Rightarrow> string \<Rightarrow> policy option" where
  "find_policy ps c p =
     (case find (policy_matches (Some c) (Some p)) ps of
        Some pol \<Rightarrow> Some pol
      | None \<Rightarrow>
          (case find (policy_matches (Some c) None) ps of
             Some pol \<Rightarrow> Some pol
           | None \<Rightarrow>
               (case find (policy_matches None (Some p)) ps of
                  Some pol \<Rightarrow> Some pol
                | None \<Rightarrow> find (policy_matches None None) ps)))"

text \<open>
  Modelled from the spec: the target of a metric under a policy (section 4.2; the
  evaluator is missing from the sources).
\<close>

definition target_of :: "metric \<Rightarrow> policy \<Rightarrow> int" where
  "target_of m pol =
     (case m of Response \<Rightarrow> response_target_minutes pol
              | Resolution \<Rightarrow> resolution_target_minutes pol)"

text \<open>
  Modelled from the spec: the completion timestamp that belongs to a metric,
  \<open>responded_at\<close> or \<open>resolved_at\<close> (section 4.2; the evaluator is missing
  from the sources).
\<close>

definition completed_at :: "metric \<Rightarrow> ticket \<Rightarrow> int option" where
  "completed_at m t = (case m of Response \<Rightarrow> responded_at t | Resolution \<Rightarrow> resolved_at t)"

text \<open>
  Modelled from the spec: \<open>response_due\<close> of a ticket (section 3, "derived or
  stored"; the ticket store is missing from the sources), taken as derived: creation
  time plus the policy's response target.
\<close>

definition response_due :: "ticket \<Rightarrow> policy \<Rightarrow> int" where
  "response_due t pol = created_at t + response_target_minutes pol"

text \<open>
  Modelled from the spec: \<open>resolution_due\<close> of a ticket (section 3, "derived or
  stored"; the ticket store is missing from the sources), taken as derived: creation
  time plus the policy's resolution target.
\<close>

definition resolution_due :: "ticket \<Rightarrow> policy \<Rightarrow> int" where
  "resolution_due t pol = created_at t + resolution_target_minutes pol"

text \<open>
  Modelled from the spec: \<open>evaluate(ticket, policy, now)\<close> of the SLA Evaluator
  (section 4.2, missing from the sources), for one metric. Elapsed time runs from
  creation to now, for the response metric only to \<open>responded_at\<close> once it is set;
  remaining is target minus elapsed. A completed metric is on track when it was
  completed within the target and breached otherwise; an open metric is breached when
  remaining is negative, a warning when remaining is at most
  \<open>target * (1 - warning_threshold_percent / 100)\<close>, else on track. A missing
  policy gives \<open>not_applicable\<close>.
\<close>

definition evaluate :: "metric \<Rightarrow> ticket \<Rightarrow> policy option \<Rightarrow> int \<Rightarrow> evaluation_result" where
  "evaluate m t policy now =
     (case policy of
        None \<Rightarrow> NotApplicable
      | Some pol \<Rightarrow>
          let target = target_of m pol;
              elapsed =
                (case m of
                   Resolution \<Rightarrow> now - created_at t
                 | Response \<Rightarrow>
                     (case responded_at t of
                        None \<Rightarrow> now - created_at t
                      | Some r \<Rightarrow> r - created_at t));
              remaining = target - elapsed;
              st =
                (case completed_at m t of
                   Some c \<Rightarrow> if c - created_at t \<le> target then OnTrack else Breached
                 | None \<Rightarrow>
                     if remaining < 0 then Breached
                     else if of_int remaining
                             \<le> of_int target * (1 - warning_threshold_percent pol / 100)
                     then Warning
                     else OnTrack)
          in Evaluated \<lparr>
               eval_ticket_id = ticket_id t,
               eval_status = st,
               eval_metric = m,
               target_minutes = target,
               elapsed_minutes = elapsed,
               remaining_minutes = remaining \<rparr>)"

text \<open>
  Modelled from the spec: the evaluations of both metrics of a ticket, as the
  Aggregator (section 4.3, missing from the sources) asks for them; a ticket without a
  policy has none.
\<close>

definition evaluations :: "policy list \<Rightarrow> int \<Rightarrow> ticket \<Rightarrow> evaluation list" where
  "evaluations ps now t =
     concat (map (\<lambda>m. case evaluate m t (find_policy ps (category t) (priority t)) now of
                         NotApplicable \<Rightarrow> []
                       | Evaluated e \<Rightarrow> [e])
                 [Response, Resolution])"

text \<open>
  Modelled from the spec: an open ticket is one that is not resolved, closed or
  cancelled (section 4.3; the aggregator is missing from the sources).
\<close>

definition is_open :: "ticket \<Rightarrow> bool" where
  "is_open t = (ticket_status t \<notin> set [''resolved'', ''closed'', ''cancelled''])"

text \<open>
  Modelled from the spec: the breach bucket of the Aggregator (section 4.3, missing
  from the sources): an open ticket of which either metric is breached.
\<close>

definition in_breaches :: "policy list \<Rightarrow> int \<Rightarrow> ticket \<Rightarrow> bool" where
  "in_breaches ps now t =
     (is_open t \<and> Breached \<in> set (map eval_status (evaluations ps now t)))"

text \<open>
  Modelled from the spec: the warning bucket of the Aggregator (section 4.3, missing
  from the sources): an open ticket of which either metric is a warning and neither is
  breached.
\<close>

definition in_warnings :: "policy list \<Rightarrow> int \<Rightarrow> ticket \<Rightarrow> bool" where
  "in_warnings ps now t =
     (is_open t \<and> Warning \<in> set (map eval_status (evaluations ps now t))
      \<and> Breached \<notin> set (map eval_status (evaluations ps now t)))"

text \<open>
  Modelled from the spec: an entry of a breach or warning list (sections 4.3 and 6;
  the aggregator is missing from the sources): the ticket's id and the remaining
  minutes the list is ordered by.
\<close>

record scan_entry =
  entry_ticket_id :: nat
  entry_remaining_minutes :: int

text \<open>
  Modelled from the spec: the remaining minutes of a listed ticket (section 4.3; the
  aggregator is missing from the sources). The specification does not say which
  metric's remaining minutes order a ticket with two metrics; the entry takes the least
  among the metrics whose status put the ticket on the list.
\<close>

definition least_remaining :: "sla_status \<Rightarrow> evaluation list \<Rightarrow> int" where
  "least_remaining st evs =
     (case map remaining_minutes (filter (\<lambda>e. eval_status e = st) evs) of
        [] \<Rightarrow> 0
      | r # rs \<Rightarrow> fold min rs r)"

text \<open>
  Modelled from the spec: the list entry of a ticket (section 4.3; the aggregator is
  missing from the sources).
\<close>

definition entry_of :: "sla_status \<Rightarrow> policy list \<Rightarrow> int \<Rightarrow> ticket \<Rightarrow> scan_entry" where
  "entry_of st ps now t =
     \<lparr> entry_ticket_id = ticket_id t,
       entry_remaining_minutes = least_remaining st (evaluations ps now t) \<rparr>"

text \<open>
  Modelled from the spec: the sort key of the lists (section 4.3; the aggregator is
  missing from the sources): ascending remaining minutes, ties broken by ticket id
  ascending. Pairs are compared lexicographically.
\<close>

definition entry_key :: "scan_entry \<Rightarrow> int \<times> nat" where
  "entry_key e = (entry_remaining_minutes e, entry_ticket_id e)"

text \<open>
  Modelled from the spec: a ticket with a resolved metric (section 4.3 and the
  glossary; the aggregator is missing from the sources): a ticket under some policy
  with a completion timestamp.
\<close>

definition has_resolved_metric :: "policy list \<Rightarrow> ticket \<Rightarrow> bool" where
  "has_resolved_metric ps t =
     (find_policy ps (category t) (priority t) \<noteq> None
      \<and> (responded_at t \<noteq> None \<or> resolved_at t \<noteq> None))"

text \<open>
  Modelled from the spec: a ticket that ever breached historically (section 4.2 and
  4.3; the aggregator is missing from the sources): one of its metrics was completed
  late.
\<close>

definition ever_breached :: "policy list \<Rightarrow> int \<Rightarrow> ticket \<Rightarrow> bool" where
  "ever_breached ps now t =
     (\<exists>e \<in> set (evaluations ps now t).
        eval_status e = Breached \<and> completed_at (eval_metric e) t \<noteq> None)"

text \<open>
  Modelled from the spec: the result of a scan (section 4.3; the aggregator is missing
  from the sources).
\<close>

record scan_result =
  scan_breaches :: "scan_entry list"
  scan_warnings :: "scan_entry list"
  compliance_rate :: rate

text \<open>
  Modelled from the spec: \<open>scan(tickets, policies, now)\<close> of the Aggregator
  (section 4.3, missing from the sources).
\<close>

definition scan :: "ticket list \<Rightarrow> policy list \<Rightarrow> int \<Rightarrow> scan_result" where
  "scan ts ps now =
     \<lparr> scan_breaches =
         sort_key entry_key (map (entry_of Breached ps now) (filter (in_breaches ps now) ts)),
       scan_warnings =
         sort_key entry_key (map (entry_of Warning ps now) (filter (in_warnings ps now) ts)),
       compliance_rate =
         spec_compliance_rate (length (filter (ever_breached ps now) ts))
           (length (filter (has_resolved_metric ps) ts)) \<rparr>"

text \<open>
  Modelled from the spec: the order of the lists written out on two entries (section
  4.3; the aggregator is missing from the sources): \<open>a\<close> may stand before
  \<open>b\<close> when it has fewer remaining minutes, or as many and an id that is not
  greater.
\<close>

definition entry_le :: "scan_entry \<Rightarrow> scan_entry \<Rightarrow> bool" where
  "entry_le a b =
     (entry_remaining_minutes a < entry_remaining_minutes b
      \<or> (entry_remaining_minutes a = entry_remaining_minutes b
          \<and> entry_ticket_id a \<le> entry_ticket_id b))"

section \<open>Rendering numbers\<close>

lemma string_of_nat_24: "string_of_nat 24 = ''24''"
  by (simp add: string_of_nat.simps digit_char_def)

lemma last_differs: "last xs \<noteq> last ys \<Longrightarrow> xs \<noteq> ys"
  by auto

section \<open>Password reset: the SLA hours of the request\<close>

text \<open>
  C9. Every password-reset submission that passes validation sends a ticket request,
  and the request's \<open>sla_hours\<close> is 4 when the selected urgency is
  \<open>high\<close>, 1 when it is \<open>critical\<close>, and 24 for every other urgency value.
  A submission passes validation exactly when the user name, the reason and the contact
  number are not blank; one that fails validation sends nothing.
\<close>

theorem password_reset_sla_hours:
  "(validateForm fd = [] \<longrightarrow>
      (\<exists>req. handleSubmit full_name fd = Some req \<and>
         (urgency fd = ''high'' \<longrightarrow> sla_hours req = 4) \<and>
         (urgency fd = ''critical'' \<longrightarrow> sla_hours req = 1) \<and>
         (urgency fd \<noteq> ''high'' \<and> urgency fd \<noteq> ''critical'' \<longrightarrow> sla_hours req = 24))) \<and>
   (validateForm fd \<noteq> [] \<longrightarrow> handleSubmit full_name fd = None) \<and>
   ((validateForm fd = []) =
      (trim (username fd) \<noteq> [] \<and> trim (reason fd) \<noteq> [] \<and> trim (contactNumber fd) \<noteq> []))"
proof -
  have sends: "\<exists>req. handleSubmit full_name fd = Some req \<and>
         (urgency fd = ''high'' \<longrightarrow> sla_hours req = 4) \<and>
         (urgency fd = ''critical'' \<longrightarrow> sla_hours req = 1) \<and>
         (urgency fd \<noteq> ''high'' \<and> urgency fd \<noteq> ''critical'' \<longrightarrow> sla_hours req = 24)"
    if "validateForm fd = []"
    using that by (simp add: handleSubmit_def)
  have refuses: "handleSubmit full_name fd = None" if "validateForm fd \<noteq> []"
    using that by (simp add: handleSubmit_def)
  have valid: "(validateForm fd = []) =
      (trim (username fd) \<noteq> [] \<and> trim (reason fd) \<noteq> [] \<and> trim (contactNumber fd) \<noteq> [])"
    by (simp add: validateForm_def)
  from sends refuses valid show ?thesis
    by blast
qed

text \<open>
  Instances: valid forms with urgency \<open>high\<close>, \<open>critical\<close> and
  \<open>medium\<close> send requests with 4, 1 and 24 SLA hours; a form whose user name is
  a single no-break space sends nothing.
\<close>

theorem password_reset_sla_hours_witness:
  "map_option sla_hours (handleSubmit None
     \<lparr>username = ''jdoe'', email = [], reason = ''forgot it'', contactNumber = ''555 0100'',
      preferredContact = ''phone'', urgency = ''high''\<rparr>) = Some 4 \<and>
   map_option sla_hours (handleSubmit None
     \<lparr>username = ''jdoe'', email = [], reason = ''forgot it'', contactNumber = ''555 0100'',
      preferredContact = ''phone'', urgency = ''critical''\<rparr>) = Some 1 \<and>
   map_option sla_hours (handleSubmit None
     \<lparr>username = ''jdoe'', email = [], reason = ''forgot it'', contactNumber = ''555 0100'',
      preferredContact = ''phone'', urgency = ''medium''\<rparr>) = Some 24 \<and>
   handleSubmit None
     \<lparr>username = [CHR 0xC2, CHR 0xA0], email = [], reason = ''forgot it'',
      contactNumber = ''555 0100'', preferredContact = ''phone'', urgency = ''high''\<rparr> = None"
proof -
  have t: "trim ''jdoe'' \<noteq> []" "trim ''forgot it'' \<noteq> []" "trim ''555 0100'' \<noteq> []"
    "trim [CHR 0xC2, CHR 0xA0] = []"
    by code_simp+
  have v: "validateForm \<lparr>username = ''jdoe'', email = [], reason = ''forgot it'',
      contactNumber = ''555 0100'', preferredContact = ''phone'', urgency = u\<rparr> = []" for u
    using t by (simp add: validateForm_def)
  have n: "validateForm \<lparr>username = [CHR 0xC2, CHR 0xA0], email = [],
      reason = ''forgot it'', contactNumber = ''555 0100'', preferredContact = ''phone'',
      urgency = ''high''\<rparr> \<noteq> []"
    using t by (simp add: validateForm_def)
  from password_reset_sla_hours [of "\<lparr>username = ''jdoe'', email = [], reason = ''forgot it'',
      contactNumber = ''555 0100'', preferredContact = ''phone'', urgency = ''high''\<rparr>" None] v
  have "map_option sla_hours (handleSubmit None
     \<lparr>username = ''jdoe'', email = [], reason = ''forgot it'', contactNumber = ''555 0100'',
      preferredContact = ''phone'', urgency = ''high''\<rparr>) = Some 4"
    by auto
  moreover
  from password_reset_sla_hours [of "\<lparr>username = ''jdoe'', email = [], reason = ''forgot it'',
      contactNumber = ''555 0100'', preferredContact = ''phone'', urgency = ''critical''\<rparr>" None] v
  have "map_option sla_hours (handleSubmit None
     \<lparr>username = ''jdoe'', email = [], reason = ''forgot it'', contactNumber = ''555 0100'',
      preferredContact = ''phone'', urgency = ''critical''\<rparr>) = Some 1"
    by auto
  moreover
  from password_reset_sla_hours [of "\<lparr>username = ''jdoe'', email = [], reason = ''forgot it'',
      contactNumber = ''555 0100'', preferredContact = ''phone'', urgency = ''medium''\<rparr>" None] v
  have "map_option sla_hours (handleSubmit None
     \<lparr>username = ''jdoe'', email = [], reason = ''forgot it'', contactNumber = ''555 0100'',
      preferredContact = ''phone'', urgency = ''medium''\<rparr>) = Some 24"
    by auto
  moreover
  from password_reset_sla_hours [of "\<lparr>username = [CHR 0xC2, CHR 0xA0], email = [],
      reason = ''forgot it'', contactNumber = ''555 0100'', preferredContact = ''phone'',
      urgency = ''high''\<rparr>" None] n
  have "handleSubmit None
     \<lparr>username = [CHR 0xC2, CHR 0xA0], email = [], reason = ''forgot it'',
      contactNumber = ''555 0100'', preferredContact = ''phone'', urgency = ''high''\<rparr> = None"
    by blast
  ultimately show ?thesis
    by simp
qed

section \<open>SLA dashboard: formatting the remaining time\<close>

text \<open>
  C10. \<open>formatTimeRemaining\<close> is a total function of its input: it returns
  \<open>N/A\<close> exactly when the input is \<open>null\<close> or \<open>undefined\<close>,
  \<open>Overdue\<close> for every negative number (the magnitude is not shown), and for
  \<open>1440 \<le> minutes < 1500\<close> (hours exactly 24) the hours form \<open>24h Xm\<close>,
  since the days form needs more than 24 hours.
\<close>

theorem formatTimeRemaining_cases:
  "(formatTimeRemaining minutes = ''N/A'') = (minutes = None) \<and>
   (\<forall>m. m < 0 \<longrightarrow> formatTimeRemaining (Some m) = ''Overdue'') \<and>
   (\<forall>m. 1440 \<le> m \<and> m < 1500 \<longrightarrow>
        formatTimeRemaining (Some m) = ''24h '' @ string_of_number (m - 1440) @ ''m'')"
proof (intro conjI allI impI)
  show "(formatTimeRemaining minutes = ''N/A'') = (minutes = None)"
  proof (cases minutes)
    case None
    then show ?thesis by (simp add: formatTimeRemaining_def)
  next
    case (Some m)
    have "formatTimeRemaining (Some m) \<noteq> ''N/A''"
      by (rule last_differs) (simp add: formatTimeRemaining_def Let_def)
    with Some show ?thesis by simp
  qed
next
  fix m :: int assume "m < 0"
  then show "formatTimeRemaining (Some m) = ''Overdue''"
    by (simp add: formatTimeRemaining_def)
next
  fix m :: int assume m: "1440 \<le> m \<and> m < 1500"
  then have h: "m div 60 = 24" and r: "m mod 60 = m - 1440"
    by presburger+
  have "string_of_number 24 = ''24''"
    by (simp add: string_of_number_def string_of_nat_24)
  with m h r show "formatTimeRemaining (Some m) = ''24h '' @ string_of_number (m - 1440) @ ''m''"
    by (simp add: formatTimeRemaining_def Let_def)
qed

text \<open>Instances: no value, ten minutes overdue, and 24 hours 10 minutes.\<close>

theorem formatTimeRemaining_cases_witness:
  "formatTimeRemaining None = ''N/A'' \<and>
   formatTimeRemaining (Some (- 10)) = ''Overdue'' \<and>
   formatTimeRemaining (Some 1450) = ''24h 10m''"
proof -
  have ten: "string_of_number (1450 - 1440) = ''10''"
    by (simp add: string_of_number_def string_of_nat.simps digit_char_def)
  from formatTimeRemaining_cases [of None] ten show ?thesis
    by simp
qed

lemma formatTimeRemaining_days: "formatTimeRemaining (Some 1500) = ''1d 1h''"
  by (simp add: formatTimeRemaining_def string_of_number_def string_of_nat.simps digit_char_def)

section \<open>SLA dashboard: the compliance rate card\<close>

text \<open>
  C1, as the specification states it, fails on the card: with one breach listed, four
  tickets with a resolved metric and one of them ever breached, the specification's rate
  is 75 percent, and the card shows \<open>N/A\<close> although resolved tickets exist.
\<close>

theorem compliance_rate_counterexample:
  "\<not> spec_shows_rate
       (complianceRate
          [\<lparr>ticket_number = Some (Str ''INC0001''), item_id = Some (Num 1),
            title = Some ''VPN down'', short_description = None\<rparr>])
       (spec_compliance_rate 1 4)"
  by (simp add: spec_shows_rate_def complianceRate_def spec_compliance_rate_def)

text \<open>
  C1, amended. The card shows \<open>100%\<close> exactly when the breach list is empty and
  \<open>N/A\<close> exactly when it is not; no ratio is computed, and the number of
  resolved tickets plays no part.
\<close>

theorem compliance_rate_display:
  "((complianceRate bs = ''100%'') = (bs = [])) \<and> ((complianceRate bs = ''N/A'') = (bs \<noteq> []))"
  by (simp add: complianceRate_def)

section \<open>SLA dashboard: the search filter\<close>

text \<open>
  C8. Filtering is free of side effects. For every live input array: \<open>filterData\<close>
  returns; every array that existed before the call is unchanged after it, the input
  array in particular; the result holds entries of the input, in the input's order; an
  empty search term returns the input array itself and allocates nothing; and a second
  computation over an array with the same content and the same search term returns a
  result with the same content.
\<close>

theorem filterData_pure:
  assumes "data < length h"
  shows "\<exists>r h'. filterData s h data = Some (r, h') \<and> r < length h' \<and>
           prefix h h' \<and> h' ! data = h ! data \<and>
           subseq (h' ! r) (h ! data) \<and>
           (s = [] \<longrightarrow> r = data \<and> h' = h) \<and>
           (\<forall>g d. d < length g \<and> g ! d = h ! data \<longrightarrow>
              (\<exists>r2 g'. filterData s g d = Some (r2, g') \<and> g' ! r2 = h' ! r))"
proof (cases "s = []")
  case True
  with assms show ?thesis
    by (simp add: filterData_def)
next
  case False
  let ?h' = "h @ [filter (matches s) (h ! data)]"
  from False assms have run: "filterData s h data = Some (length h, ?h')"
    by (simp add: filterData_def)
  have frame: "prefix h ?h'" and same: "?h' ! data = h ! data"
    using assms by (simp_all add: nth_append)
  have sub: "subseq (?h' ! length h) (h ! data)"
    by simp
  have again: "\<exists>r2 g'. filterData s g d = Some (r2, g') \<and> g' ! r2 = ?h' ! length h"
    if "d < length g \<and> g ! d = h ! data" for g d
    using that False by (simp add: filterData_def)
  from run frame same sub again False show ?thesis
    by simp
qed

text \<open>An instance: two entries, of which the search term \<open>vpn\<close> keeps the first.\<close>

theorem filterData_pure_witness:
  "\<exists>r h'. filterData ''vpn''
       [[\<lparr>ticket_number = Some (Str ''INC0001''), item_id = Some (Num 1),
          title = Some ''VPN down'', short_description = None\<rparr>,
         \<lparr>ticket_number = None, item_id = Some (Num 42), title = None,
          short_description = Some ''Printer jam''\<rparr>]] 0 = Some (r, h') \<and>
     r = 1 \<and>
     h' ! 0 =
       [\<lparr>ticket_number = Some (Str ''INC0001''), item_id = Some (Num 1),
         title = Some ''VPN down'', short_description = None\<rparr>,
        \<lparr>ticket_number = None, item_id = Some (Num 42), title = None,
         short_description = Some ''Printer jam''\<rparr>] \<and>
     h' ! r =
       [\<lparr>ticket_number = Some (Str ''INC0001''), item_id = Some (Num 1),
         title = Some ''VPN down'', short_description = None\<rparr>]"
proof -
  let ?i1 = "\<lparr>ticket_number = Some (Str ''INC0001''), item_id = Some (Num 1),
        title = Some ''VPN down'', short_description = None\<rparr>"
  let ?i2 = "\<lparr>ticket_number = None, item_id = Some (Num 42), title = None,
        short_description = Some ''Printer jam''\<rparr>"
  have m1: "matches ''vpn'' ?i1" and m2: "\<not> matches ''vpn'' ?i2"
    by code_simp+
  from filterData_pure [of 0 "[[?i1, ?i2]]" "''vpn''"]
  obtain r h' where run: "filterData ''vpn'' [[?i1, ?i2]] 0 = Some (r, h')"
    and same: "h' ! 0 = [[?i1, ?i2]] ! 0"
    by auto
  from run m1 m2 have "r = 1" and "h' ! r = [?i1]"
    by (auto simp: filterData_def)
  with run same show ?thesis
    by simp
qed

section \<open>Assignment groups: the status chip\<close>

text \<open>
  C2, as the specification states it, fails on the chip: an agent at exactly 50 percent
  with no status of its own is labelled \<open>Available\<close>, not \<open>busy\<close>.
\<close>

theorem status_bucket_counterexample:
  "toLowerCase
     (statusLabel \<lparr>max_capacity = Some 10, agents = []\<rparr>
        \<lparr>workload_percentage = None, assigned_tickets = 5, agent_status = None\<rparr>)
   \<noteq> spec_status
       (workloadPercent \<lparr>max_capacity = Some 10, agents = []\<rparr>
          \<lparr>workload_percentage = None, assigned_tickets = 5, agent_status = None\<rparr>)"
proof -
  have "toLowerCase ''Available'' = ''available''" by code_simp
  then show ?thesis
    by (simp add: statusLabel_def workloadPercent_def or_number_def or_str_def spec_status_def)
qed

text \<open>
  C2, amended. For an agent record without a status of its own, the chip's label is
  \<open>Available\<close> for every percentage below 90 and \<open>Overloaded\<close> from 90 on
  (exactly 90 included); there is no \<open>busy\<close> label. A status carried by the
  record is shown as it is. The chip's colour has four bands, below 50, 50 to below 70,
  70 to below 90, and 90 and above; the values 50, 70 and 90 fall into the higher band.
\<close>

theorem status_label_buckets:
  "(agent_status a = None \<or> agent_status a = Some [] \<longrightarrow>
      (workloadPercent w a < 90 \<longrightarrow> statusLabel w a = ''Available'') \<and>
      (90 \<le> workloadPercent w a \<longrightarrow> statusLabel w a = ''Overloaded'')) \<and>
   (\<forall>s. agent_status a = Some s \<and> s \<noteq> [] \<longrightarrow> statusLabel w a = s) \<and>
   getWorkloadColor p =
     (if p < 50 then ''#388e3c'' else if p < 70 then ''#fbc02d''
      else if p < 90 then ''#f57c00'' else ''#d32f2f'')"
  by (auto simp: statusLabel_def or_str_def getWorkloadColor_def)

text \<open>Instances: 70 percent, exactly 90 percent, a status of the record's own, and the colour at 50.\<close>

theorem status_label_buckets_witness:
  "statusLabel \<lparr>max_capacity = Some 10, agents = []\<rparr>
     \<lparr>workload_percentage = None, assigned_tickets = 7, agent_status = None\<rparr> = ''Available'' \<and>
   statusLabel \<lparr>max_capacity = Some 10, agents = []\<rparr>
     \<lparr>workload_percentage = Some 90, assigned_tickets = 7, agent_status = Some ''''\<rparr> = ''Overloaded'' \<and>
   statusLabel \<lparr>max_capacity = Some 10, agents = []\<rparr>
     \<lparr>workload_percentage = Some 95, assigned_tickets = 7, agent_status = Some ''busy''\<rparr> = ''busy'' \<and>
   getWorkloadColor 50 = ''#fbc02d''"
proof -
  let ?w = "\<lparr>max_capacity = Some 10, agents = []\<rparr>"
  let ?a = "\<lparr>workload_percentage = None, assigned_tickets = 7, agent_status = None\<rparr>"
  let ?b = "\<lparr>workload_percentage = Some 90, assigned_tickets = 7, agent_status = Some ''''\<rparr>"
  let ?c = "\<lparr>workload_percentage = Some 95, assigned_tickets = 7, agent_status = Some ''busy''\<rparr>"
  have pa: "workloadPercent ?w ?a = 70" and pb: "workloadPercent ?w ?b = 90"
    by (simp_all add: workloadPercent_def or_number_def)
  from status_label_buckets [of ?a ?w 50] pa have "statusLabel ?w ?a = ''Available''" "getWorkloadColor 50 = ''#fbc02d''"
    by simp_all
  moreover from status_label_buckets [of ?b ?w 50] pb have "statusLabel ?w ?b = ''Overloaded''"
    by simp
  moreover from status_label_buckets [of ?c ?w 50] have "statusLabel ?w ?c = ''busy''"
    by simp
  ultimately show ?thesis
    by simp
qed

section \<open>Assignment groups: the workload percentage\<close>

text \<open>
  C3, as the specification states it, fails on the table: with no \<open>max_capacity\<close>
  configured the specification reports \<open>InvalidCapacityConfig\<close>, and the component
  computes 90 percent for nine tickets, from the default capacity 10.
\<close>

theorem unconfigured_capacity_counterexample:
  "Inr (workloadPercent \<lparr>max_capacity = None, agents = []\<rparr>
         \<lparr>workload_percentage = None, assigned_tickets = 9, agent_status = None\<rparr>)
     \<noteq> spec_compute \<lparr>max_capacity = None, agents = []\<rparr>
         \<lparr>workload_percentage = None, assigned_tickets = 9, agent_status = None\<rparr>
   \<and> workloadPercent \<lparr>max_capacity = None, agents = []\<rparr>
         \<lparr>workload_percentage = None, assigned_tickets = 9, agent_status = None\<rparr> = 90
   \<and> spec_compute \<lparr>max_capacity = None, agents = []\<rparr>
         \<lparr>workload_percentage = None, assigned_tickets = 9, agent_status = None\<rparr>
       = Inl InvalidCapacityConfig"
  by (simp add: workloadPercent_def or_number_def spec_compute_def)

text \<open>
  C3, amended. The divisor of the workload calculation is never zero; when
  \<open>max_capacity\<close> is not configured (absent or zero) and the agent record has no
  percentage of its own, the calculation goes on with the default capacity 10 and
  reports no error.
\<close>

theorem unconfigured_capacity_defaults_to_ten:
  "or_number (max_capacity w) 10 \<noteq> 0 \<and>
   ((max_capacity w = None \<or> max_capacity w = Some 0) \<and>
    (workload_percentage a = None \<or> workload_percentage a = Some 0)
    \<longrightarrow> workloadPercent w a = assigned_tickets a / 10 * 100)"
  by (auto simp: workloadPercent_def or_number_def split: option.splits)

text \<open>An instance: capacity configured as zero, four tickets, 40 percent.\<close>

theorem unconfigured_capacity_defaults_to_ten_witness:
  "workloadPercent \<lparr>max_capacity = Some 0, agents = []\<rparr>
     \<lparr>workload_percentage = None, assigned_tickets = 4, agent_status = None\<rparr> = 40"
  using unconfigured_capacity_defaults_to_ten
    [of "\<lparr>max_capacity = Some 0, agents = []\<rparr>"
        "\<lparr>workload_percentage = None, assigned_tickets = 4, agent_status = None\<rparr>"]
  by simp

text \<open>
  C7, as the specification states it, fails on the table: an agent record that carries
  a percentage of its own (here 30, with nine tickets and capacity 10) is shown with
  that percentage, not with \<open>9 / 10 * 100\<close>.
\<close>

theorem workload_percentage_counterexample:
  "workloadPercent \<lparr>max_capacity = Some 10, agents = []\<rparr>
      \<lparr>workload_percentage = Some 30, assigned_tickets = 9, agent_status = None\<rparr> = 30
   \<and> workloadPercent \<lparr>max_capacity = Some 10, agents = []\<rparr>
      \<lparr>workload_percentage = Some 30, assigned_tickets = 9, agent_status = None\<rparr>
     \<noteq> assigned_tickets
          \<lparr>workload_percentage = Some 30, assigned_tickets = 9, agent_status = None\<rparr>
        / 10 * 100"
  by (simp add: workloadPercent_def or_number_def)

text \<open>
  C7, amended. For every agent record without a percentage of its own (absent or
  zero), the workload percentage is \<open>assigned_tickets / capacity * 100\<close>, where
  the capacity is \<open>max_capacity\<close>, or 10 when that is absent or zero; an agent
  record that carries a non-zero percentage is shown with that value instead; for a
  fixed positive capacity the computed percentage is monotonically non-decreasing in
  the assigned tickets; with
  capacity 10 and nine assigned tickets it is exactly 90, and the label (for a record
  without a status of its own) is \<open>Overloaded\<close>.
\<close>

theorem workload_percentage_formula:
  "(workload_percentage a \<in> {None, Some 0} \<longrightarrow>
      workloadPercent w a = assigned_tickets a / or_number (max_capacity w) 10 * 100) \<and>
   (\<forall>p. workload_percentage a = Some p \<and> p \<noteq> 0 \<longrightarrow> workloadPercent w a = p) \<and>
   (workload_percentage a \<in> {None, Some 0} \<and> workload_percentage a' \<in> {None, Some 0} \<and>
    0 < or_number (max_capacity w) 10 \<and> assigned_tickets a \<le> assigned_tickets a'
    \<longrightarrow> workloadPercent w a \<le> workloadPercent w a') \<and>
   (max_capacity w = Some 10 \<and> workload_percentage a = None \<and> assigned_tickets a = 9
    \<longrightarrow> workloadPercent w a = 90 \<and> (agent_status a = None \<longrightarrow> statusLabel w a = ''Overloaded''))"
proof -
  have formula: "workloadPercent w b = assigned_tickets b / or_number (max_capacity w) 10 * 100"
    if "workload_percentage b \<in> {None, Some 0}" for b
    using that by (auto simp: workloadPercent_def or_number_def)
  have mono: "workloadPercent w a \<le> workloadPercent w a'"
    if h: "workload_percentage a \<in> {None, Some 0} \<and> workload_percentage a' \<in> {None, Some 0} \<and>
           0 < or_number (max_capacity w) 10 \<and> assigned_tickets a \<le> assigned_tickets a'"
  proof -
    from h have "assigned_tickets a / or_number (max_capacity w) 10
                   \<le> assigned_tickets a' / or_number (max_capacity w) 10"
      by (simp add: divide_right_mono)
    then have "assigned_tickets a / or_number (max_capacity w) 10 * 100
                   \<le> assigned_tickets a' / or_number (max_capacity w) 10 * 100"
      by (rule mult_right_mono) simp
    with h show ?thesis
      by (simp add: formula)
  qed
  have scenario: "workloadPercent w a = 90 \<and> (agent_status a = None \<longrightarrow> statusLabel w a = ''Overloaded'')"
    if h: "max_capacity w = Some 10 \<and> workload_percentage a = None \<and> assigned_tickets a = 9"
  proof -
    from h have "workloadPercent w a = 90"
      by (simp add: workloadPercent_def or_number_def)
    then show ?thesis
      by (simp add: statusLabel_def or_str_def)
  qed
  have own: "workloadPercent w a = p" if "workload_percentage a = Some p \<and> p \<noteq> 0" for p
    using that by (simp add: workloadPercent_def or_number_def)
  from formula own mono scenario show ?thesis
    by blast
qed

text \<open>
  Instances: nine of ten is 90 percent and overloaded; three tickets weigh no more than
  nine; a record carrying 30 percent is shown with 30 percent.
\<close>

theorem workload_percentage_formula_witness:
  "workloadPercent \<lparr>max_capacity = Some 10, agents = []\<rparr>
     \<lparr>workload_percentage = None, assigned_tickets = 9, agent_status = None\<rparr> = 90 \<and>
   statusLabel \<lparr>max_capacity = Some 10, agents = []\<rparr>
     \<lparr>workload_percentage = None, assigned_tickets = 9, agent_status = None\<rparr> = ''Overloaded'' \<and>
   workloadPercent \<lparr>max_capacity = Some 10, agents = []\<rparr>
     \<lparr>workload_percentage = None, assigned_tickets = 3, agent_status = None\<rparr>
   \<le> workloadPercent \<lparr>max_capacity = Some 10, agents = []\<rparr>
     \<lparr>workload_percentage = None, assigned_tickets = 9, agent_status = None\<rparr> \<and>
   workloadPercent \<lparr>max_capacity = Some 10, agents = []\<rparr>
     \<lparr>workload_percentage = Some 30, assigned_tickets = 9, agent_status = None\<rparr> = 30"
  using workload_percentage_formula
    [of "\<lparr>workload_percentage = None, assigned_tickets = 9, agent_status = None\<rparr>"
        "\<lparr>max_capacity = Some 10, agents = []\<rparr>"
        "\<lparr>workload_percentage = None, assigned_tickets = 9, agent_status = None\<rparr>"]
    workload_percentage_formula
    [of "\<lparr>workload_percentage = None, assigned_tickets = 3, agent_status = None\<rparr>"
        "\<lparr>max_capacity = Some 10, agents = []\<rparr>"
        "\<lparr>workload_percentage = None, assigned_tickets = 9, agent_status = None\<rparr>"]
    workload_percentage_formula
    [of "\<lparr>workload_percentage = Some 30, assigned_tickets = 9, agent_status = None\<rparr>"
        "\<lparr>max_capacity = Some 10, agents = []\<rparr>"
        "\<lparr>workload_percentage = None, assigned_tickets = 9, agent_status = None\<rparr>"]
  by (simp add: or_number_def)

section \<open>SLA service: the evaluator\<close>

lemma evaluate_resolution_open:
  "resolved_at t = None \<Longrightarrow>
   evaluate Resolution t (Some pol) now =
     Evaluated \<lparr>
       eval_ticket_id = ticket_id t,
       eval_status =
         (if resolution_target_minutes pol - (now - created_at t) < 0 then Breached
          else if of_int (resolution_target_minutes pol - (now - created_at t))
                  \<le> of_int (resolution_target_minutes pol) * (1 - warning_threshold_percent pol / 100)
          then Warning else OnTrack),
       eval_metric = Resolution,
       target_minutes = resolution_target_minutes pol,
       elapsed_minutes = now - created_at t,
       remaining_minutes = resolution_target_minutes pol - (now - created_at t) \<rparr>"
  by (simp add: evaluate_def target_of_def completed_at_def Let_def)

text \<open>
  C6. A ticket whose resolution is due in the past and that is not resolved evaluates,
  for the resolution metric, to \<open>breached\<close> with negative remaining minutes; a
  ticket created 70 minutes ago with a 60-minute resolution target and unresolved
  evaluates to \<open>breached\<close> with remaining minutes \<open>-10\<close>.
\<close>

theorem overdue_unresolved_is_breached:
  "(resolved_at t = None \<and> resolution_due t pol < now \<longrightarrow>
      (\<exists>e. evaluate Resolution t (Some pol) now = Evaluated e
           \<and> eval_status e = Breached \<and> remaining_minutes e < 0)) \<and>
   (resolved_at t = None \<and> created_at t = now - 70 \<and> resolution_target_minutes pol = 60 \<longrightarrow>
      (\<exists>e. evaluate Resolution t (Some pol) now = Evaluated e
           \<and> eval_status e = Breached \<and> remaining_minutes e = - 10))"
  by (auto simp: evaluate_resolution_open resolution_due_def)

text \<open>An instance: created at minute 930, evaluated at minute 1000 against a 60-minute target.\<close>

theorem overdue_unresolved_is_breached_witness:
  "evaluate Resolution
     \<lparr>ticket_id = 7, ticket_no = ''INC0007'', category = ''network'', priority = ''high'',
      ticket_status = ''open'', created_at = 930, responded_at = None, resolved_at = None\<rparr>
     (Some \<lparr>policy_id = 1, policy_name = ''default'', policy_category = None,
            policy_priority = None, response_target_minutes = 15,
            resolution_target_minutes = 60, warning_threshold_percent = 75, active = True\<rparr>)
     1000
   = Evaluated \<lparr>eval_ticket_id = 7, eval_status = Breached, eval_metric = Resolution,
                target_minutes = 60, elapsed_minutes = 70, remaining_minutes = - 10\<rparr>"
proof -
  let ?t = "\<lparr>ticket_id = 7, ticket_no = ''INC0007'', category = ''network'', priority = ''high'',
      ticket_status = ''open'', created_at = 930, responded_at = None, resolved_at = None\<rparr>"
  let ?p = "\<lparr>policy_id = 1, policy_name = ''default'', policy_category = None,
            policy_priority = None, response_target_minutes = 15,
            resolution_target_minutes = 60, warning_threshold_percent = 75, active = True\<rparr>"
  from overdue_unresolved_is_breached [of ?t ?p 1000]
  obtain e where e: "evaluate Resolution ?t (Some ?p) 1000 = Evaluated e"
    "eval_status e = Breached" "remaining_minutes e = - 10"
    by (auto simp: resolution_due_def)
  from e(1) have "eval_ticket_id e = 7" "eval_metric e = Resolution" "target_minutes e = 60"
    "elapsed_minutes e = 70" "evaluation.more e = ()"
    by (auto simp: evaluate_def target_of_def completed_at_def Let_def)
  with e show ?thesis
    by (cases e) simp
qed

section \<open>SLA service: the aggregator's lists\<close>

lemma entry_key_le: "(entry_key a \<le> entry_key b) = entry_le a b"
  by (auto simp: entry_key_def entry_le_def less_eq_prod_def)

lemma sorted_entries: "sorted_wrt entry_le (sort_key entry_key xs)"
proof -
  have "sorted (map entry_key (sort_key entry_key xs))"
    by (rule sorted_sort_key)
  then show ?thesis
    by (simp add: sorted_map entry_key_le)
qed

lemma entry_key_inj:
  assumes "distinct (map ticket_id ts)"
  shows "inj_on entry_key (set (map (entry_of st ps now) (filter P ts)))"
proof (rule inj_onI)
  fix a b
  assume a: "a \<in> set (map (entry_of st ps now) (filter P ts))"
    and b: "b \<in> set (map (entry_of st ps now) (filter P ts))"
    and k: "entry_key a = entry_key b"
  from a obtain t where t: "t \<in> set ts" "a = entry_of st ps now t" by auto
  from b obtain u where u: "u \<in> set ts" "b = entry_of st ps now u" by auto
  from k t u have "ticket_id t = ticket_id u"
    by (simp add: entry_key_def entry_of_def)
  with assms t(1) u(1) have "t = u"
    by (meson distinct_map inj_onD)
  with t u show "a = b" by simp
qed

lemma filter_length_mset: "mset xs = mset ys \<Longrightarrow> length (filter P xs) = length (filter P ys)"
  by (metis mset_filter size_mset)

lemma scan_permutation:
  assumes d: "distinct (map ticket_id ts)" and m: "mset ts' = mset ts"
  shows "scan ts' ps now = scan ts ps now"
proof -
  have lists: "sort_key entry_key (map (entry_of st ps now) (filter P ts'))
             = sort_key entry_key (map (entry_of st ps now) (filter P ts))" for st P
  proof (rule sort_key_eq_sort_key)
    from m show "mset (map (entry_of st ps now) (filter P ts'))
               = mset (map (entry_of st ps now) (filter P ts))"
      by (metis mset_filter mset_map)
    from m d have "distinct (map ticket_id ts')"
      by (metis mset_eq_imp_distinct_iff mset_map)
    then show "inj_on entry_key (set (map (entry_of st ps now) (filter P ts')))"
      by (rule entry_key_inj)
  qed
  from m have counts: "length (filter P ts') = length (filter P ts)" for P
    by (rule filter_length_mset)
  show ?thesis
    by (simp add: scan_def lists counts)
qed

lemma listed_ids:
  "entry_ticket_id ` set (sort_key entry_key (map (entry_of st ps now) (filter P ts)))
     = ticket_id ` {t \<in> set ts. P t}"
  by (force simp: entry_of_def)

lemma listed_iff:
  assumes "distinct (map ticket_id ts)" and "t \<in> set ts"
  shows "(ticket_id t \<in> ticket_id ` {u \<in> set ts. P u}) = P t"
proof -
  from assms(1) have "inj_on ticket_id (set ts)"
    by (simp add: distinct_map)
  with assms(2) show ?thesis
    by (auto dest: inj_onD)
qed

text \<open>
  C4. For every set of tickets (a list with distinct ids) processed by one scan, no
  ticket id is on both the breach list and the warning list: a ticket is on the breach
  list exactly when it is open and some metric is breached, and on the warning list
  exactly when it is open, some metric is a warning and no metric is breached. The
  dashboard's \<open>fetchSLAData\<close> stores the two lists as the service returns them.
\<close>

theorem breach_precedence:
  assumes "distinct (map ticket_id ts)"
  shows
    "entry_ticket_id ` set (scan_breaches (scan ts ps now))
       \<inter> entry_ticket_id ` set (scan_warnings (scan ts ps now)) = {} \<and>
     (\<forall>t \<in> set ts.
        (ticket_id t \<in> entry_ticket_id ` set (scan_breaches (scan ts ps now)))
          = (is_open t \<and> Breached \<in> set (map eval_status (evaluations ps now t)))) \<and>
     (\<forall>t \<in> set ts.
        (ticket_id t \<in> entry_ticket_id ` set (scan_warnings (scan ts ps now)))
          = (is_open t \<and> Warning \<in> set (map eval_status (evaluations ps now t))
             \<and> Breached \<notin> set (map eval_status (evaluations ps now t)))) \<and>
     fetchSLAData \<lparr>ok = True, body = Array (scan_breaches (scan ts ps now))\<rparr>
                  \<lparr>ok = True, body = Object (Some (scan_warnings (scan ts ps now)))\<rparr>
       = Inr (scan_breaches (scan ts ps now), scan_warnings (scan ts ps now))"
proof -
  have bs: "entry_ticket_id ` set (scan_breaches (scan ts ps now))
              = ticket_id ` {t \<in> set ts. in_breaches ps now t}"
    and ws: "entry_ticket_id ` set (scan_warnings (scan ts ps now))
              = ticket_id ` {t \<in> set ts. in_warnings ps now t}"
    unfolding scan_def by (simp_all only: scan_result.simps listed_ids)
  have b_iff: "(ticket_id t \<in> entry_ticket_id ` set (scan_breaches (scan ts ps now)))
                 = in_breaches ps now t" if "t \<in> set ts" for t
    unfolding bs using assms that by (rule listed_iff)
  have w_iff: "(ticket_id t \<in> entry_ticket_id ` set (scan_warnings (scan ts ps now)))
                 = in_warnings ps now t" if "t \<in> set ts" for t
    unfolding ws using assms that by (rule listed_iff)
  have disj: "entry_ticket_id ` set (scan_breaches (scan ts ps now))
       \<inter> entry_ticket_id ` set (scan_warnings (scan ts ps now)) = {}"
  proof (rule ccontr)
    assume "\<not> ?thesis"
    then obtain i where ib: "i \<in> entry_ticket_id ` set (scan_breaches (scan ts ps now))"
      and iw: "i \<in> entry_ticket_id ` set (scan_warnings (scan ts ps now))"
      by auto
    from ib obtain t where t: "t \<in> set ts" "i = ticket_id t"
      unfolding bs by auto
    from t ib iw have "in_breaches ps now t" "in_warnings ps now t"
      by (simp_all add: b_iff w_iff)
    then show False
      by (simp add: in_breaches_def in_warnings_def)
  qed
  have fetch: "fetchSLAData \<lparr>ok = True, body = Array (scan_breaches (scan ts ps now))\<rparr>
                  \<lparr>ok = True, body = Object (Some (scan_warnings (scan ts ps now)))\<rparr>
       = Inr (scan_breaches (scan ts ps now), scan_warnings (scan ts ps now))"
    by (simp add: fetchSLAData_def response_list_def)
  from disj b_iff w_iff fetch show ?thesis
    by (simp add: in_breaches_def in_warnings_def)
qed

text \<open>An instance: one breached ticket and one warning ticket under the default policy.\<close>

theorem breach_precedence_witness:
  "entry_ticket_id ` set (scan_breaches (scan
      [\<lparr>ticket_id = 7, ticket_no = ''INC0007'', category = ''network'', priority = ''high'',
        ticket_status = ''open'', created_at = 930, responded_at = None, resolved_at = None\<rparr>,
       \<lparr>ticket_id = 3, ticket_no = ''INC0003'', category = ''network'', priority = ''low'',
        ticket_status = ''in_progress'', created_at = 950, responded_at = Some 955,
        resolved_at = None\<rparr>]
      [\<lparr>policy_id = 1, policy_name = ''default'', policy_category = None,
        policy_priority = None, response_target_minutes = 15,
        resolution_target_minutes = 60, warning_threshold_percent = 75, active = True\<rparr>]
      1000))
   \<inter> entry_ticket_id ` set (scan_warnings (scan
      [\<lparr>ticket_id = 7, ticket_no = ''INC0007'', category = ''network'', priority = ''high'',
        ticket_status = ''open'', created_at = 930, responded_at = None, resolved_at = None\<rparr>,
       \<lparr>ticket_id = 3, ticket_no = ''INC0003'', category = ''network'', priority = ''low'',
        ticket_status = ''in_progress'', created_at = 950, responded_at = Some 955,
        resolved_at = None\<rparr>]
      [\<lparr>policy_id = 1, policy_name = ''default'', policy_category = None,
        policy_priority = None, response_target_minutes = 15,
        resolution_target_minutes = 60, warning_threshold_percent = 75, active = True\<rparr>]
      1000)) = {} \<and>
   scan
      [\<lparr>ticket_id = 7, ticket_no = ''INC0007'', category = ''network'', priority = ''high'',
        ticket_status = ''open'', created_at = 930, responded_at = None, resolved_at = None\<rparr>,
       \<lparr>ticket_id = 3, ticket_no = ''INC0003'', category = ''network'', priority = ''low'',
        ticket_status = ''in_progress'', created_at = 950, responded_at = Some 955,
        resolved_at = None\<rparr>]
      [\<lparr>policy_id = 1, policy_name = ''default'', policy_category = None,
        policy_priority = None, response_target_minutes = 15,
        resolution_target_minutes = 60, warning_threshold_percent = 75, active = True\<rparr>]
      1000
   = \<lparr>scan_breaches = [\<lparr>entry_ticket_id = 7, entry_remaining_minutes = - 55\<rparr>],
      scan_warnings = [\<lparr>entry_ticket_id = 3, entry_remaining_minutes = 10\<rparr>],
      compliance_rate = Percent 100\<rparr>"
proof -
  let ?ts = "[\<lparr>ticket_id = 7, ticket_no = ''INC0007'', category = ''network'', priority = ''high'',
        ticket_status = ''open'', created_at = 930, responded_at = None, resolved_at = None\<rparr>,
       \<lparr>ticket_id = 3, ticket_no = ''INC0003'', category = ''network'', priority = ''low'',
        ticket_status = ''in_progress'', created_at = 950, responded_at = Some 955,
        resolved_at = None\<rparr>]"
  let ?ps = "[\<lparr>policy_id = 1, policy_name = ''default'', policy_category = None,
        policy_priority = None, response_target_minutes = 15,
        resolution_target_minutes = 60, warning_threshold_percent = 75, active = True\<rparr>]"
  have d: "distinct (map ticket_id ?ts)"
    by simp
  have v: "scan ?ts ?ps 1000
   = \<lparr>scan_breaches = [\<lparr>entry_ticket_id = 7, entry_remaining_minutes = - 55\<rparr>],
      scan_warnings = [\<lparr>entry_ticket_id = 3, entry_remaining_minutes = 10\<rparr>],
      compliance_rate = Percent 100\<rparr>"
    by code_simp
  from breach_precedence [OF d, of ?ps 1000] v show ?thesis
    by blast
qed

text \<open>
  C5. The breach list and the warning list of every scan are sorted by ascending
  remaining minutes, ties broken by ascending ticket id; filtering a list (as the
  dashboard's search does) keeps it sorted; and the result does not depend on the order
  in which the tickets are supplied.
\<close>

theorem scan_lists_sorted:
  "sorted_wrt entry_le (scan_breaches (scan ts ps now)) \<and>
   sorted_wrt entry_le (scan_warnings (scan ts ps now)) \<and>
   (\<forall>P. sorted_wrt entry_le (filter P (scan_breaches (scan ts ps now)))
      \<and> sorted_wrt entry_le (filter P (scan_warnings (scan ts ps now)))) \<and>
   (distinct (map ticket_id ts) \<and> mset ts' = mset ts \<longrightarrow> scan ts' ps now = scan ts ps now)"
proof -
  have b: "sorted_wrt entry_le (scan_breaches (scan ts ps now))"
    and w: "sorted_wrt entry_le (scan_warnings (scan ts ps now))"
    by (simp_all add: scan_def sorted_entries)
  from b w show ?thesis
    by (simp add: scan_permutation sorted_wrt_filter)
qed

text \<open>
  An instance: three breached tickets, two of them tied at ten minutes overdue; the
  scan of a reordered input is the same, and the tie is broken by id.
\<close>

theorem scan_lists_sorted_witness:
  "scan
      [\<lparr>ticket_id = 3, ticket_no = ''INC0003'', category = ''network'', priority = ''low'',
        ticket_status = ''open'', created_at = 930, responded_at = Some 931, resolved_at = None\<rparr>,
       \<lparr>ticket_id = 7, ticket_no = ''INC0007'', category = ''network'', priority = ''high'',
        ticket_status = ''open'', created_at = 930, responded_at = Some 940, resolved_at = None\<rparr>,
       \<lparr>ticket_id = 5, ticket_no = ''INC0005'', category = ''network'', priority = ''high'',
        ticket_status = ''open'', created_at = 900, responded_at = Some 901, resolved_at = None\<rparr>]
      [\<lparr>policy_id = 1, policy_name = ''default'', policy_category = None,
        policy_priority = None, response_target_minutes = 15,
        resolution_target_minutes = 60, warning_threshold_percent = 75, active = True\<rparr>]
      1000
   = scan
      [\<lparr>ticket_id = 7, ticket_no = ''INC0007'', category = ''network'', priority = ''high'',
        ticket_status = ''open'', created_at = 930, responded_at = Some 940, resolved_at = None\<rparr>,
       \<lparr>ticket_id = 5, ticket_no = ''INC0005'', category = ''network'', priority = ''high'',
        ticket_status = ''open'', created_at = 900, responded_at = Some 901, resolved_at = None\<rparr>,
       \<lparr>ticket_id = 3, ticket_no = ''INC0003'', category = ''network'', priority = ''low'',
        ticket_status = ''open'', created_at = 930, responded_at = Some 931, resolved_at = None\<rparr>]
      [\<lparr>policy_id = 1, policy_name = ''default'', policy_category = None,
        policy_priority = None, response_target_minutes = 15,
        resolution_target_minutes = 60, warning_threshold_percent = 75, active = True\<rparr>]
      1000 \<and>
   scan_breaches (scan
      [\<lparr>ticket_id = 7, ticket_no = ''INC0007'', category = ''network'', priority = ''high'',
        ticket_status = ''open'', created_at = 930, responded_at = Some 940, resolved_at = None\<rparr>,
       \<lparr>ticket_id = 5, ticket_no = ''INC0005'', category = ''network'', priority = ''high'',
        ticket_status = ''open'', created_at = 900, responded_at = Some 901, resolved_at = None\<rparr>,
       \<lparr>ticket_id = 3, ticket_no = ''INC0003'', category = ''network'', priority = ''low'',
        ticket_status = ''open'', created_at = 930, responded_at = Some 931, resolved_at = None\<rparr>]
      [\<lparr>policy_id = 1, policy_name = ''default'', policy_category = None,
        policy_priority = None, response_target_minutes = 15,
        resolution_target_minutes = 60, warning_threshold_percent = 75, active = True\<rparr>]
      1000)
   = [\<lparr>entry_ticket_id = 5, entry_remaining_minutes = - 40\<rparr>,
      \<lparr>entry_ticket_id = 3, entry_remaining_minutes = - 10\<rparr>,
      \<lparr>entry_ticket_id = 7, entry_remaining_minutes = - 10\<rparr>]"
proof -
  let ?a = "\<lparr>ticket_id = 7, ticket_no = ''INC0007'', category = ''network'', priority = ''high'',
        ticket_status = ''open'', created_at = 930, responded_at = Some 940, resolved_at = None\<rparr>"
  let ?b = "\<lparr>ticket_id = 5, ticket_no = ''INC0005'', category = ''network'', priority = ''high'',
        ticket_status = ''open'', created_at = 900, responded_at = Some 901, resolved_at = None\<rparr>"
  let ?c = "\<lparr>ticket_id = 3, ticket_no = ''INC0003'', category = ''network'', priority = ''low'',
        ticket_status = ''open'', created_at = 930, responded_at = Some 931, resolved_at = None\<rparr>"
  let ?ps = "[\<lparr>policy_id = 1, policy_name = ''default'', policy_category = None,
        policy_priority = None, response_target_minutes = 15,
        resolution_target_minutes = 60, warning_threshold_percent = 75, active = True\<rparr>]"
  have d: "distinct (map ticket_id [?a, ?b, ?c])"
    by simp
  have m: "mset [?c, ?a, ?b] = mset [?a, ?b, ?c]"
    by simp
  have v: "scan_breaches (scan [?a, ?b, ?c] ?ps 1000)
     = [\<lparr>entry_ticket_id = 5, entry_remaining_minutes = - 40\<rparr>,
        \<lparr>entry_ticket_id = 3, entry_remaining_minutes = - 10\<rparr>,
        \<lparr>entry_ticket_id = 7, entry_remaining_minutes = - 10\<rparr>]"
    by code_simp
  from scan_lists_sorted [of "[?a, ?b, ?c]" ?ps 1000 "[?c, ?a, ?b]"] d m
  have "scan [?c, ?a, ?b] ?ps 1000 = scan [?a, ?b, ?c] ?ps 1000"
    by blast
  with v show ?thesis
    by simp
qed


end
